theory Spec2Isabelle
  imports Complex_Main
begin

section \<open>Overlap simulation: ParticleOverlap/overlaparea.py\<close>

text \<open>
  The body of one trial (the inner \<^verbatim>\<open>for x in range(5)\<close> loop, source lines 39 to 180)
  is embedded as a function of the sampled positions. Floating-point numbers are read as
  reals. \<^verbatim>\<open>Positions\<close> is a 2 x N array; column \<open>k\<close> is kept as the pair
  \<open>(Positions[0,k], Positions[1,k])\<close>. \<^verbatim>\<open>Z = np.full((N),1)\<close> has an integer fill value,
  so NumPy gives it an integer dtype: heights are integers, and a float stored into
  \<^verbatim>\<open>Z[g]\<close> is cast to an integer (truncation toward zero). Heights are unbounded
  integers here; in a trial they stay far below the 64-bit range. The loop that only
  prints distances below 30 and the arrays \<^verbatim>\<open>posx\<close>, \<^verbatim>\<open>posy\<close>, which nothing reads, are
  left out. Line 16 of the script is the bare name \<^verbatim>\<open>test\<close>, which stops a run of the
  script as it stands with a NameError before the first trial; the trial body is
  embedded as written.
\<close>

type_synonym positions = "(real \<times> real) list"

definition Psize :: real where
  "Psize = 38 / 10"

definition SApar :: real where
  "SApar = 4 * pi * (38 / 10 / 2)\<^sup>2"

text \<open>The source fixes \<^verbatim>\<open>N = 2000\<close> and \<^verbatim>\<open>SAtotal = 2000*SApar\<close>; the particle
  count is kept as a parameter so that clouds of other sizes can be stated.\<close>

definition SAtotal_for :: "nat \<Rightarrow> real" where
  "SAtotal_for n = real n * SApar"

definition SAtotal :: real where
  "SAtotal = SAtotal_for 2000"

definition Distance1_of :: "positions \<Rightarrow> int list \<Rightarrow> nat \<Rightarrow> real list" where
  "Distance1_of Positions Z i =
     map (\<lambda>k. sqrt ((fst (Positions ! i) - fst (Positions ! k))\<^sup>2
                   + (snd (Positions ! i) - snd (Positions ! k))\<^sup>2
                   + (real_of_int (Z ! i - Z ! k))\<^sup>2))
         [0..<length Positions]"

definition np_where_lt :: "real list \<Rightarrow> real \<Rightarrow> nat list" where
  "np_where_lt D c = filter (\<lambda>k. D ! k < c) [0..<length D]"

text \<open>\<^verbatim>\<open>np.sqrt\<close> of a negative float is NaN, here \<open>None\<close>.\<close>

definition np_sqrt :: "real \<Rightarrow> real option" where
  "np_sqrt r = (if r < 0 then None else Some (sqrt r))"

text \<open>Storing a float into the integer array: the C cast, truncation toward zero.\<close>

definition int_cast :: "real \<Rightarrow> int" where
  "int_cast v = (if 0 \<le> v then \<lfloor>v\<rfloor> else \<lceil>v\<rceil>)"

text \<open>
  The state of the inner loop over \<^verbatim>\<open>index[0]\<close>: the heights \<open>Z\<close>, the current
  \<^verbatim>\<open>Distance1\<close> array, and the arguments handed to \<^verbatim>\<open>np.sqrt\<close> on the stacking line so
  far, in order of evaluation. A NaN that would be stored into the integer array ends the
  run with \<open>None\<close>.
\<close>

type_synonym resolver_state = "int list \<times> real list \<times> real list"

fun stack_neighbours :: "positions \<Rightarrow> nat \<Rightarrow> nat list \<Rightarrow> resolver_state \<Rightarrow> resolver_state option" where
  "stack_neighbours Positions i [] st = Some st"
| "stack_neighbours Positions i (g # gs) (Z, D, rs) =
     (if g \<noteq> i then
        (let (Z1, D1) = (if Z ! g \<noteq> Z ! i
                         then (Z[g := Z ! i], Distance1_of Positions (Z[g := Z ! i]) i)
                         else (Z, D));
             r = (Psize * 10)\<^sup>2 - (D1 ! g)\<^sup>2
         in case np_sqrt r of
              None \<Rightarrow> None
            | Some s \<Rightarrow> stack_neighbours Positions i gs
                          (Z1[g := int_cast (real_of_int (Z1 ! g) + s)], D1, rs @ [r]))
      else stack_neighbours Positions i gs (Z, D, rs))"

text \<open>One pass of \<^verbatim>\<open>for i, a in enumerate(Positions[0])\<close> over the particles \<open>is\<close>.\<close>

fun sweep_particles :: "positions \<Rightarrow> nat list \<Rightarrow> int list \<times> real list \<Rightarrow> (int list \<times> real list) option" where
  "sweep_particles Positions [] st = Some st"
| "sweep_particles Positions (i # is) (Z, rs) =
     (let Distance1 = Distance1_of Positions Z i;
          index = np_where_lt Distance1 35
      in case stack_neighbours Positions i index (Z, Distance1, rs) of
           None \<Rightarrow> None
         | Some (Z', D', rs') \<Rightarrow> sweep_particles Positions is (Z', rs'))"

definition sweep :: "positions \<Rightarrow> int list \<times> real list \<Rightarrow> (int list \<times> real list) option" where
  "sweep Positions st = sweep_particles Positions [0..<length Positions] st"

text \<open>The sweep block is written out eight times in the source (lines 53, 63, 73, 83,
  93, 103, 113 and 123), each on the heights the previous one left.\<close>

definition resolve :: "positions \<Rightarrow> (int list \<times> real list) option" where
  "resolve Positions =
     Option.bind (Option.bind (Option.bind (Option.bind (Option.bind (Option.bind (Option.bind
       (sweep Positions (replicate (length Positions) 1, []))
       (sweep Positions)) (sweep Positions)) (sweep Positions)) (sweep Positions))
       (sweep Positions)) (sweep Positions)) (sweep Positions)"

subsection \<open>Area-loss accounting\<close>

definition btom :: "int list \<Rightarrow> nat \<Rightarrow> real list" where
  "btom Z i = (if Z ! i < 5 then [12] else [])"

definition olap :: "positions \<Rightarrow> int list \<Rightarrow> nat \<Rightarrow> real list" where
  "olap Positions Z i =
     map (\<lambda>b. 84 / 10)
       (filter (\<lambda>b. b \<noteq> i) (np_where_lt (Distance1_of Positions Z i) (Psize * 10 + 5)))"

definition sumloss :: "positions \<Rightarrow> int list \<Rightarrow> nat \<Rightarrow> real" where
  "sumloss Positions Z i =
     (let olapsum = sum_list (olap Positions Z i);
          btomsum = sum_list (btom Z i);
          sumloss = olapsum + btomsum
      in if sumloss \<ge> SApar then SApar else sumloss)"

definition sumlosses :: "positions \<Rightarrow> int list \<Rightarrow> real list" where
  "sumlosses Positions Z = map (sumloss Positions Z) [0..<length Positions]"

definition Area :: "positions \<Rightarrow> int list \<Rightarrow> real" where
  "Area Positions Z = sum_list (sumlosses Positions Z)"

definition Ratio_for :: "nat \<Rightarrow> positions \<Rightarrow> int list \<Rightarrow> real" where
  "Ratio_for n Positions Z = (SAtotal_for n - Area Positions Z) / SAtotal_for n"

definition Ratio :: "positions \<Rightarrow> int list \<Rightarrow> real" where
  "Ratio Positions Z = (SAtotal - Area Positions Z) / SAtotal"

text \<open>One trial: resolve the heights, then account for the lost area.\<close>

definition trial :: "positions \<Rightarrow> real option" where
  "trial Positions = map_option (\<lambda>(Z, rs). Ratio Positions Z) (resolve Positions)"

subsection \<open>Notions used in the proofs\<close>

text \<open>The squared planar distance between particles \<open>i\<close> and \<open>k\<close>.\<close>

definition planar2 :: "positions \<Rightarrow> nat \<Rightarrow> nat \<Rightarrow> real" where
  "planar2 Positions i k =
     (fst (Positions ! i) - fst (Positions ! k))\<^sup>2 + (snd (Positions ! i) - snd (Positions ! k))\<^sup>2"

text \<open>A resolver result that is not a NaN failure, keeps one height per particle, none
  below 1, and has taken square roots of arguments above 219 only.\<close>

definition resolver_ok :: "positions \<Rightarrow> (int list \<times> real list) option \<Rightarrow> bool" where
  "resolver_ok Positions res =
     (case res of
        None \<Rightarrow> False
      | Some (Z, rs) \<Rightarrow>
          length Z = length Positions \<and> (\<forall>z\<in>set Z. 1 \<le> z) \<and> (\<forall>r\<in>set rs. 219 < r))"

text \<open>The resolver as the specification words it, with seven sweeps; it is compared
  with \<open>resolve\<close> below.\<close>

definition resolve_seven_sweeps :: "positions \<Rightarrow> (int list \<times> real list) option" where
  "resolve_seven_sweeps Positions =
     Option.bind (Option.bind (Option.bind (Option.bind (Option.bind (Option.bind
       (sweep Positions (replicate (length Positions) 1, []))
       (sweep Positions)) (sweep Positions)) (sweep Positions)) (sweep Positions))
       (sweep Positions)) (sweep Positions)"

text \<open>A cloud of twenty particles on which the heights are still moving in the eighth
  sweep.\<close>

definition slow_cloud :: positions where
  "slow_cloud = [(7, 3), (11, 25), (36, 10), (36, 21), (25, 41), (10, 27), (7, 38), (34, 0), (36, 35), (6, 10), (23, 41), (6, 5), (28, 33), (5, 16), (66, 7), (37, 23), (21, 40), (3, 13), (41, 3), (0, 13)]"

section \<open>Charge integration: CurrentIntegration/STM312currentintegration.py\<close>

text \<open>
  Floats are read as reals. An attribute that \<^verbatim>\<open>__init__\<close> sets only when its key occurs
  in the parameter string is an \<open>option\<close> field: reading it while it is \<open>None\<close> is
  Python's AttributeError. The measurement \<^verbatim>\<open>data\<close>, an N x 2 array, is the list of its
  rows \<open>(time, current)\<close>. Everything the code prints is collected in a list of
  \<open>printed\<close> values; the plotting import is left out.

  The first six values of \<open>py_error\<close> are Python exceptions. \<open>NotFollowed\<close> is not one:
  it marks a run that Python continues with an infinity or a NaN, or whose course at a
  division by zero depends on the operand being a Python float (ZeroDivisionError) or a
  NumPy scalar (inf or nan, and the run goes on). No real number stands for these, and
  the model stops there.
\<close>

datatype py_error = ValueError | IndexError | AttributeError | TypeError
  | UnboundLocalError | OverflowError | NotFollowed

datatype model_kind = NP | SA

datatype printed =
    Number real
  | NotRecognized string string
  | ModelMustBe
  | ModelNotChosen
  | SingleAtomsNotImplemented
  | AlreadyExceeded real real
  | NumberOfClusters real
  | TimeUntil real real real int int int

record IntegrateCurrent =
  debugging :: bool
  model :: "model_kind option"
  target :: "real list option"
  time :: "real list"
  leak_current :: "real option"
  area_particle :: "real option"
  area_aperture :: "real option"
  sa_density :: "real option"
  data :: "(real \<times> real) list"
  dep_rate :: "real option"
  present_coverage :: "real option"

subsection \<open>Strings\<close>

text \<open>\<^verbatim>\<open>s.strip(cs)\<close>: drop the leading and the trailing characters that occur in \<open>cs\<close>.\<close>

definition strip_chars :: "string \<Rightarrow> string \<Rightarrow> string" where
  "strip_chars cs s =
     rev (dropWhile (\<lambda>c. c \<in> set cs) (rev (dropWhile (\<lambda>c. c \<in> set cs) s)))"

text \<open>\<^verbatim>\<open>s.split(sep)\<close> for a one-character separator; the empty string gives \<open>['']\<close>.\<close>

fun split_on :: "char \<Rightarrow> string \<Rightarrow> string list" where
  "split_on sep [] = [] # []"
| "split_on sep (c # cs) =
     (if c = sep then [] # split_on sep cs
      else (case split_on sep cs of
              [] \<Rightarrow> [c] # []
            | w # ws \<Rightarrow> (c # w) # ws))"

definition char_upper :: "char \<Rightarrow> char" where
  "char_upper c =
     (let n = (of_char c :: nat) in if 97 \<le> n \<and> n \<le> 122 then char_of (n - 32) else c)"

definition parse_bool_string :: "string \<Rightarrow> py_error + bool" where
  "parse_bool_string string =
     (case string of
        [] \<Rightarrow> Inl IndexError
      | c # _ \<Rightarrow> Inr (char_upper c = CHR ''T'' \<or> map char_upper string = ''ON''
                      \<or> char_upper c = CHR ''Y''))"

definition to_pmol :: "real \<Rightarrow> real" where
  "to_pmol number = number * 10 ^ 12 / (6022 * 10 ^ 20)"

subsection \<open>Construction\<close>

text \<open>
  Python's built-in \<^verbatim>\<open>float\<close> is a parameter \<open>pyfloat\<close> of the model. Its result is
  \<open>Unreadable\<close> where \<^verbatim>\<open>float(value)\<close> raises ValueError, a finite value, or one of the
  three values that are not real numbers. \<open>decimal_float\<close> is the fragment of it that
  reads unsigned decimal numerals such as \<^verbatim>\<open>7\<close>, \<^verbatim>\<open>1.3\<close> and \<^verbatim>\<open>10.0\<close>; it instantiates
  the parameter in the concrete runs below.
\<close>

datatype float_read = Unreadable | Finite real | PosInf | NegInf | NaN

text \<open>A value that is needed as a real number.\<close>

definition read_finite :: "float_read \<Rightarrow> py_error + real" where
  "read_finite r =
     (case r of
        Unreadable \<Rightarrow> Inl ValueError
      | Finite v \<Rightarrow> Inr v
      | _ \<Rightarrow> Inl NotFollowed)"

text \<open>
  A real number whose nearest double is an infinity: the largest double is
  \<open>2^1024 - 2^971\<close>, and from \<open>2^1024 - 2^970\<close> on rounding to nearest gives infinity.
  Python's \<^verbatim>\<open>**\<close> on floats raises OverflowError when its result is infinite; its
  \<^verbatim>\<open>*\<close> returns the infinity. (The operands are taken as the exact reals; their own
  rounding is not modelled.)
\<close>

definition rounds_to_inf :: "real \<Rightarrow> bool" where
  "rounds_to_inf x = (2 ^ 1024 - 2 ^ 970 \<le> \<bar>x\<bar>)"

text \<open>\<^verbatim>\<open>np.pi * ((radius)**2)\<close>, lines 49 and 52.\<close>

definition disc_area :: "real \<Rightarrow> py_error + real" where
  "disc_area radius =
     (if rounds_to_inf (radius\<^sup>2) then Inl OverflowError
      else if rounds_to_inf (pi * radius\<^sup>2) then Inl NotFollowed
      else Inr (pi * radius\<^sup>2))"

definition is_digit :: "char \<Rightarrow> bool" where
  "is_digit c = (48 \<le> (of_char c :: nat) \<and> (of_char c :: nat) \<le> 57)"

definition digits_value :: "string \<Rightarrow> nat" where
  "digits_value s = foldl (\<lambda>n c. 10 * n + ((of_char c :: nat) - 48)) 0 s"

definition decimal_float :: "string \<Rightarrow> float_read" where
  "decimal_float s =
     (case split_on CHR ''.'' s of
        [a] \<Rightarrow>
          if a \<noteq> [] \<and> list_all is_digit a then Finite (real (digits_value a)) else Unreadable
      | [a, b] \<Rightarrow>
          if (a \<noteq> [] \<or> b \<noteq> []) \<and> list_all is_digit a \<and> list_all is_digit b
          then Finite (real (digits_value a) + real (digits_value b) / 10 ^ length b)
          else Unreadable
      | _ \<Rightarrow> Unreadable)"

definition default_targets :: "real list" where
  "default_targets = [5, 10, 15, 20, 25, 30, 40, 50, 75, 100, 150, 200, 300]"

text \<open>\<^verbatim>\<open>[float(val) for val in value.split(',')]\<close>: the first value that does not parse
  raises, also after an infinity or a NaN.\<close>

fun float_list :: "(string \<Rightarrow> float_read) \<Rightarrow> string list \<Rightarrow> py_error + real list" where
  "float_list pyfloat [] = Inr []"
| "float_list pyfloat (v # vs) =
     (case pyfloat v of
        Unreadable \<Rightarrow> Inl ValueError
      | Finite x \<Rightarrow>
          (case float_list pyfloat vs of Inl err \<Rightarrow> Inl err | Inr xs \<Rightarrow> Inr (x # xs))
      | _ \<Rightarrow>
          (if float_list pyfloat vs = Inl ValueError then Inl ValueError else Inl NotFollowed))"

text \<open>The body of \<^verbatim>\<open>for item in string\<close>. \<^verbatim>\<open>param, value = item.split('=')\<close> raises
  ValueError unless the split has exactly two parts. A target that is NaN or minus
  infinity fails the test \<^verbatim>\<open>self.target[0] > 0\<close> and gives the default targets.\<close>

definition set_param ::
  "(string \<Rightarrow> float_read) \<Rightarrow> string \<Rightarrow> IntegrateCurrent \<times> printed list
     \<Rightarrow> py_error + IntegrateCurrent \<times> printed list" where
  "set_param pyfloat item st =
     (case st of (self, out) \<Rightarrow>
      (case split_on CHR ''='' item of
         [param, value] \<Rightarrow>
           if param = ''LEAK_CURRENT'' then
             (case read_finite (pyfloat value) of
                Inl err \<Rightarrow> Inl err
              | Inr v \<Rightarrow> Inr (self\<lparr>leak_current := Some v\<rparr>, out))
           else if param = ''PARTICLE_DIAMETER'' then
             (case read_finite (pyfloat value) of
                Inl err \<Rightarrow> Inl err
              | Inr v \<Rightarrow>
                  (let radius_particle = v / 2 * (1 / 10 ^ 9)
                   in case disc_area radius_particle of
                        Inl err \<Rightarrow> Inl err
                      | Inr area \<Rightarrow> Inr (self\<lparr>area_particle := Some area\<rparr>, out)))
           else if param = ''APERTURE_DIAMETER'' then
             (case read_finite (pyfloat value) of
                Inl err \<Rightarrow> Inl err
              | Inr v \<Rightarrow>
                  (let radius_aperture = v / 2 * (1 / 10 ^ 3)
                   in case disc_area radius_aperture of
                        Inl err \<Rightarrow> Inl err
                      | Inr area \<Rightarrow> Inr (self\<lparr>area_aperture := Some area\<rparr>, out)))
           else if param = ''DEBUG'' then
             (case parse_bool_string value of
                Inl err \<Rightarrow> Inl err
              | Inr b \<Rightarrow> Inr (self\<lparr>debugging := b\<rparr>, out))
           else if param = ''MODEL'' then
             (if value = ''NP'' then Inr (self\<lparr>model := Some NP\<rparr>, out)
              else if value = ''SA'' then Inr (self\<lparr>model := Some SA\<rparr>, out)
              else Inr (self, out @ [ModelMustBe]))
           else if param = ''SA_DENSITY'' then
             (case read_finite (pyfloat value) of
                Inl err \<Rightarrow> Inl err
              | Inr v \<Rightarrow> Inr (self\<lparr>sa_density := Some v\<rparr>, out))
           else if param = ''TARGET'' then
             (case pyfloat value of
                Unreadable \<Rightarrow> Inl ValueError
              | Finite v \<Rightarrow>
                  Inr (self\<lparr>target := Some (if \<not> v > 0 then default_targets else [v])\<rparr>, out)
              | PosInf \<Rightarrow> Inl NotFollowed
              | NegInf \<Rightarrow> Inr (self\<lparr>target := Some default_targets\<rparr>, out)
              | NaN \<Rightarrow> Inr (self\<lparr>target := Some default_targets\<rparr>, out))
           else if param = ''TIME'' then
             (let value' = strip_chars ''[]'' value
              in if value' \<noteq> [] then
                   (case float_list pyfloat (split_on CHR '','' value') of
                      Inl err \<Rightarrow> Inl err
                    | Inr ts \<Rightarrow> Inr (self\<lparr>time := ts\<rparr>, out))
                 else Inr (self, out))
           else Inr (self, out @ [NotRecognized param value])
       | _ \<Rightarrow> Inl ValueError))"

fun set_params ::
  "(string \<Rightarrow> float_read) \<Rightarrow> string list \<Rightarrow> IntegrateCurrent \<times> printed list
     \<Rightarrow> py_error + IntegrateCurrent \<times> printed list" where
  "set_params pyfloat [] st = Inr st"
| "set_params pyfloat (item # items) st =
     (case set_param pyfloat item st of
        Inl err \<Rightarrow> Inl err
      | Inr st' \<Rightarrow> set_params pyfloat items st')"

definition blank :: "IntegrateCurrent" where
  "blank = \<lparr>debugging = False, model = None, target = None, time = [],
            leak_current = None, area_particle = None, area_aperture = None,
            sa_density = None, data = [], dep_rate = None, present_coverage = None\<rparr>"

definition init ::
  "(string \<Rightarrow> float_read) \<Rightarrow> string \<Rightarrow> (real \<times> real) list
     \<Rightarrow> py_error + IntegrateCurrent \<times> printed list" where
  "init pyfloat parameter_string dat =
     (let string = split_on CHR '';'' (strip_chars '';'' parameter_string)
      in case set_params pyfloat string (blank, []) of
           Inl err \<Rightarrow> Inl err
         | Inr (self, out) \<Rightarrow>
             Inr (self\<lparr>data := dat, dep_rate := None, present_coverage := None\<rparr>, out))"

subsection \<open>Coverage conversion\<close>

text \<open>
  Both conversions return the printed messages and the value, \<open>None\<close> being Python's
  \<^verbatim>\<open>None\<close>. At a division by an area that is zero a Python float operand raises
  ZeroDivisionError, and a NumPy scalar (the count that \<^verbatim>\<open>integrate\<close> passes, a target
  from the default array) gives inf or nan and the run continues: \<open>NotFollowed\<close>.
\<close>

definition convert_coverage_to_number ::
  "IntegrateCurrent \<Rightarrow> real \<Rightarrow> printed list \<times> (py_error + real option)" where
  "convert_coverage_to_number self coverage =
     (case model self of
        None \<Rightarrow> ([ModelNotChosen], Inr None)
      | Some SA \<Rightarrow> ([SingleAtomsNotImplemented], Inr None)
      | Some NP \<Rightarrow>
          (case area_aperture self of
             None \<Rightarrow> ([], Inl AttributeError)
           | Some aa \<Rightarrow>
               (case area_particle self of
                  None \<Rightarrow> ([], Inl AttributeError)
                | Some ap \<Rightarrow>
                    if ap = 0 then ([], Inl NotFollowed)
                    else ([], Inr (Some (coverage / 100 * aa / ap))))))"

definition convert_number_to_coverage ::
  "IntegrateCurrent \<Rightarrow> real \<Rightarrow> printed list \<times> (py_error + real option)" where
  "convert_number_to_coverage self number =
     (case model self of
        None \<Rightarrow> ([ModelNotChosen], Inr None)
      | Some SA \<Rightarrow> ([SingleAtomsNotImplemented], Inr None)
      | Some NP \<Rightarrow>
          (case area_aperture self of
             None \<Rightarrow> ([], Inl AttributeError)
           | Some aa \<Rightarrow>
               if aa = 0 then ([], Inl NotFollowed)
               else (case area_particle self of
                       None \<Rightarrow> ([], Inl AttributeError)
                     | Some ap \<Rightarrow> ([], Inr (Some (number * 100 / aa * ap))))))"

subsection \<open>Integration and the time estimate\<close>

definition e_charge :: real where
  "e_charge = 1602 / 10 ^ 22"

definition np_diff :: "real list \<Rightarrow> real list" where
  "np_diff ts = map (\<lambda>(a, b). b - a) (zip ts (tl ts))"

definition net_current :: "real \<Rightarrow> (real \<times> real) list \<Rightarrow> real list" where
  "net_current leak dat = map (\<lambda>(t, c). \<bar>c + leak\<bar>) dat"

definition integral :: "real \<Rightarrow> (real \<times> real) list \<Rightarrow> real" where
  "integral leak dat =
     sum_list (map (\<lambda>(n, d). n * d) (zip (tl (net_current leak dat)) (np_diff (map fst dat))))
       / e_charge"

text \<open>\<^verbatim>\<open>np.average\<close> of no samples is NaN, here \<open>None\<close>.\<close>

definition deposition_rate :: "real \<Rightarrow> (real \<times> real) list \<Rightarrow> real option" where
  "deposition_rate leak dat =
     (let above = filter (\<lambda>v. v > 1 / 10 ^ 13) (net_current leak dat);
          recent = drop (length above - 100) above
      in if recent = [] then None
         else Some (sum_list recent / real (length recent) / e_charge))"

text \<open>Lines 109 to 111: the second filter reads \<^verbatim>\<open>self.time[1]\<close> after the first has
  been stored.\<close>

definition apply_time_window :: "IntegrateCurrent \<Rightarrow> IntegrateCurrent \<times> py_error option" where
  "apply_time_window self =
     (if time self \<noteq> [] then
        (let self1 = self\<lparr>data := filter (\<lambda>(t, c). t \<ge> time self ! 0) (data self)\<rparr>
         in if length (time self) < 2 then (self1, Some IndexError)
            else (self1\<lparr>data := filter (\<lambda>(t, c). t \<le> time self ! 1) (data self1)\<rparr>, None))
      else (self, None))"

text \<open>The loop of lines 123 to 128; \<open>tc\<close> is \<^verbatim>\<open>target_coverage\<close>, unbound at first.\<close>

fun pick_target :: "real list \<Rightarrow> real \<Rightarrow> real list \<Rightarrow> real option \<Rightarrow> real option" where
  "pick_target tgt present [] tc = tc"
| "pick_target tgt present (coverage # rest) tc =
     (if coverage \<ge> present then Some coverage
      else pick_target tgt present rest (Some (last tgt)))"

definition select_target :: "real list \<Rightarrow> real option \<Rightarrow> py_error + real" where
  "select_target tgt present_cov =
     (case tgt of
        [] \<Rightarrow> Inl UnboundLocalError
      | _ # _ \<Rightarrow>
          (case present_cov of
             None \<Rightarrow> Inl TypeError
           | Some present \<Rightarrow>
               (case pick_target tgt present tgt None of
                  None \<Rightarrow> Inl UnboundLocalError
                | Some tc \<Rightarrow> Inr tc)))"

text \<open>
  Lines 140 to 144. Python's \<^verbatim>\<open>int\<close> of a float truncates toward zero; of NaN it raises
  ValueError. The arithmetic is that of the reals: the doubles of the code round each
  operation, so that near a whole number of minutes or hours the three integers of the
  code can differ from these by one, and its minutes and seconds can come out negative
  where \<^verbatim>\<open>time_hr*3600\<close> or \<^verbatim>\<open>time_min*60\<close> rounds above \<^verbatim>\<open>time_left\<close>. Nothing below
  relies on these integers except where \<^verbatim>\<open>time_left\<close> is exactly 0.
\<close>

definition time_estimate ::
  "real \<Rightarrow> real \<Rightarrow> real option \<Rightarrow> py_error + int \<times> int \<times> int" where
  "time_estimate target_number integ rate =
     (let remaining = target_number - integ
      in case rate of
           None \<Rightarrow> Inl ValueError
         | Some r \<Rightarrow>
             (let time_left = remaining / r;
                  time_hr = int_cast (time_left / 3600);
                  time_min = int_cast ((time_left - real_of_int time_hr * 3600) / 60);
                  time_sec = int_cast (time_left - real_of_int time_hr * 3600
                                        - real_of_int time_min * 60)
              in Inr (time_hr, time_min, time_sec)))"

definition predict ::
  "IntegrateCurrent \<Rightarrow> real \<Rightarrow> real option \<Rightarrow> printed list \<times> py_error option" where
  "predict self integ rate =
     (case convert_number_to_coverage self integ of
        (msgs, Inl err) \<Rightarrow> (msgs, Some err)
      | (msgs, Inr present_cov) \<Rightarrow>
          (case target self of
             None \<Rightarrow> (msgs, Some TypeError)
           | Some tgt \<Rightarrow>
               (case select_target tgt present_cov of
                  Inl err \<Rightarrow> (msgs, Some err)
                | Inr target_coverage \<Rightarrow>
                    (case convert_coverage_to_number self target_coverage of
                       (msgs2, Inl err) \<Rightarrow> (msgs @ msgs2, Some err)
                     | (msgs2, Inr None) \<Rightarrow> (msgs @ msgs2, Some TypeError)
                     | (msgs2, Inr (Some target_number)) \<Rightarrow>
                         if target_number < integ then
                           (msgs @ msgs2 @
                              [AlreadyExceeded target_coverage (the present_cov),
                               NumberOfClusters (to_pmol integ)], None)
                         else
                           (case time_estimate target_number integ rate of
                              Inl err \<Rightarrow> (msgs @ msgs2, Some err)
                            | Inr (time_hr, time_min, time_sec) \<Rightarrow>
                                (msgs @ msgs2 @
                                   [TimeUntil (to_pmol integ) (the present_cov) target_coverage
                                      time_hr time_min time_sec], None))))))"

definition integrate :: "IntegrateCurrent \<Rightarrow> IntegrateCurrent \<times> printed list \<times> py_error option" where
  "integrate self =
     (case leak_current self of
        None \<Rightarrow> (self, [], Some AttributeError)
      | Some leak \<Rightarrow>
          (case apply_time_window self of
             (self1, Some err) \<Rightarrow> (self1, [], Some err)
           | (self1, None) \<Rightarrow>
               (let integ = integral leak (data self1);
                    rate = deposition_rate leak (data self1);
                    (out, err) = predict self1 integ rate
                in (self1, Number integ # out, err))))"

subsection \<open>Notions used in the statements\<close>

text \<open>The target the loop of lines 123 to 128 settles on: the first one at or above the
  present coverage, else the last.\<close>

definition chosen_target :: "real list \<Rightarrow> real \<Rightarrow> real" where
  "chosen_target tgt present =
     (case find (\<lambda>c. present \<le> c) tgt of Some c \<Rightarrow> c | None \<Rightarrow> last tgt)"





text \<open>The session that \<^verbatim>\<open>__init__\<close> builds from
  \<^verbatim>\<open>TARGET=10;MODEL=NP;LEAK_CURRENT=0;PARTICLE_DIAMETER=1;APERTURE_DIAMETER=1\<close>, with an
  optional \<^verbatim>\<open>TIME\<close> window.\<close>

definition example_session :: "real list \<Rightarrow> (real \<times> real) list \<Rightarrow> IntegrateCurrent" where
  "example_session window dat =
     \<lparr>debugging = False, model = Some NP, target = Some [10], time = window,
      leak_current = Some 0,
      area_particle = Some (pi * (1 / 2 * (1 / 10 ^ 9))\<^sup>2),
      area_aperture = Some (pi * (1 / 2 * (1 / 10 ^ 3))\<^sup>2),
      sa_density = None, data = dat, dep_rate = None, present_coverage = None\<rparr>"

section \<open>Facts about the overlap simulation\<close>

lemma SApar_pos: "0 < SApar"
  by (simp add: SApar_def)

lemma sumloss_bounds: "0 \<le> sumloss Positions Z i \<and> sumloss Positions Z i \<le> SApar"
proof -
  have "0 \<le> sum_list (olap Positions Z i)"
    by (rule sum_list_nonneg) (auto simp: olap_def)
  moreover have "0 \<le> sum_list (btom Z i)"
    by (simp add: btom_def)
  ultimately show ?thesis
    using SApar_pos by (simp add: sumloss_def Let_def)
qed

lemma Area_bounds:
  "0 \<le> Area Positions Z \<and> Area Positions Z \<le> real (length Positions) * SApar"
proof -
  have lo: "0 \<le> sum_list (map (sumloss Positions Z) ks)" for ks
    by (rule sum_list_nonneg) (auto simp: sumloss_bounds)
  have hi: "sum_list (map (sumloss Positions Z) ks) \<le> real (length ks) * SApar" for ks
  proof (induction ks)
    case Nil
    show ?case by simp
  next
    case (Cons k ks)
    have "sumloss Positions Z k \<le> SApar"
      using sumloss_bounds by blast
    with Cons show ?case
      by (simp add: algebra_simps)
  qed
  show ?thesis
    using lo [of "[0..<length Positions]"] hi [of "[0..<length Positions]"]
    by (simp add: Area_def sumlosses_def)
qed

lemma Ratio_eq_Ratio_for: "Ratio Positions Z = Ratio_for 2000 Positions Z"
  by (simp add: Ratio_def Ratio_for_def SAtotal_def)

lemma twelve_less_SApar: "12 < SApar"
proof -
  have "12 < 4 * 2 * (38 / 10 / 2 :: real)\<^sup>2"
    by (simp add: power2_eq_square)
  also have "\<dots> \<le> 4 * pi * (38 / 10 / 2)\<^sup>2"
    using pi_ge_two by simp
  finally show ?thesis
    by (simp add: SApar_def)
qed

lemma Distance1_of_single: "Distance1_of [p] Z 0 = [0]"
  by (simp add: Distance1_of_def)

lemma sweep_single: "sweep [p] ([1], []) = Some ([1], [])"
  by (simp add: sweep_def Distance1_of_single np_where_lt_def)

text \<open>
  Claim C1. For a cloud of \<open>N \<ge> 1\<close> particles, whatever the positions and heights, with
  the total available area \<open>N * SApar\<close>, the coverage ratio of the area-loss accounting
  (8.4 per neighbour within the loss radius, 12 for a height below 5, capped at \<open>SApar\<close>
  per particle) lies between 0 and 1 inclusive.
\<close>

theorem Ratio_in_unit_interval:
  assumes "length Positions = N" and "1 \<le> N"
  shows "0 \<le> Ratio_for N Positions Z \<and> Ratio_for N Positions Z \<le> 1"
proof -
  have tot: "0 < SAtotal_for N"
    using assms SApar_pos by (simp add: SAtotal_for_def)
  have "0 \<le> Area Positions Z" and "Area Positions Z \<le> SAtotal_for N"
    using Area_bounds [of Positions Z] assms by (simp_all add: SAtotal_for_def)
  with tot show ?thesis
    by (simp add: Ratio_for_def)
qed

theorem Ratio_in_unit_interval_witness:
  "length [(0, 0), (3, 4) :: real \<times> real] = 2 \<and> (1::nat) \<le> 2
   \<and> 0 \<le> Ratio_for 2 [(0, 0), (3, 4)] [1, 39]
   \<and> Ratio_for 2 [(0, 0), (3, 4)] [1, 39] \<le> 1"
  using Ratio_in_unit_interval [of "[(0, 0), (3, 4)]" 2 "[1, 39]"] by simp

text \<open>
  Claim C7. With a single particle the resolver leaves the height at 1 and evaluates no
  stacking adjustment; no per-neighbour penalty is accumulated; the lost area is the
  base-layer penalty 12 when the height is below the floor 5 (as it is after resolution)
  and zero when the height is at or above the floor.
\<close>

theorem single_particle_lost_area:
  "resolve [p] = Some ([1], [])
   \<and> olap [p] [h] 0 = []
   \<and> Area [p] [1] = 12
   \<and> Area [p] [h] = (if h < 5 then 12 else 0)"
proof -
  have res: "resolve [p] = Some ([1], [])"
    by (simp add: resolve_def sweep_single)
  have ol: "olap [p] [h] 0 = []" for h
    by (simp add: olap_def Distance1_of_single np_where_lt_def Psize_def)
  have ar: "Area [p] [h] = (if h < 5 then 12 else 0)" for h
    using twelve_less_SApar SApar_pos
    by (simp add: Area_def sumlosses_def sumloss_def ol btom_def)
  show ?thesis
    using res ol ar [of h] ar [of 1] by simp
qed

subsection \<open>The square-root argument of the stacking line\<close>

lemma planar2_nonneg: "0 \<le> planar2 Positions i k"
  by (simp add: planar2_def)

lemma length_Distance1_of: "length (Distance1_of Positions Z i) = length Positions"
  by (simp add: Distance1_of_def)

lemma Distance1_of_nth:
  "k < length Positions \<Longrightarrow>
   Distance1_of Positions Z i ! k = sqrt (planar2 Positions i k + (real_of_int (Z ! i - Z ! k))\<^sup>2)"
  by (simp add: Distance1_of_def planar2_def)

lemma sqrt_less_35: "sqrt (p + q\<^sup>2) < 35 \<Longrightarrow> 0 \<le> p \<Longrightarrow> p < 1225"
proof -
  assume a: "sqrt (p + q\<^sup>2) < 35" and p: "0 \<le> p"
  have "sqrt (p + q\<^sup>2) < sqrt (35\<^sup>2)" using a by simp
  then have "p + q\<^sup>2 < 35\<^sup>2" by (simp only: real_sqrt_less_iff)
  then have "p + q\<^sup>2 < 1225" by simp
  moreover have "0 \<le> q\<^sup>2" by simp
  ultimately show ?thesis by linarith
qed

lemma np_where_lt_props:
  "distinct (np_where_lt D c) \<and> (\<forall>k\<in>set (np_where_lt D c). k < length D \<and> D ! k < c)"
  by (simp add: np_where_lt_def)

lemma stack_neighbours_step:
  assumes "g \<noteq> i"
    and "Z1 = (if Z ! g \<noteq> Z ! i then Z[g := Z ! i] else Z)"
    and "D1 = (if Z ! g \<noteq> Z ! i then Distance1_of Positions (Z[g := Z ! i]) i else D)"
    and "r = (Psize * 10)\<^sup>2 - (D1 ! g)\<^sup>2"
    and "\<not> r < 0"
  shows "stack_neighbours Positions i (g # gs) (Z, D, rs)
         = stack_neighbours Positions i gs
             (Z1[g := int_cast (real_of_int (Z1 ! g) + sqrt r)], D1, rs @ [r])"
proof (cases "Z ! g \<noteq> Z ! i")
  case True
  with assms have "Z1 = Z[g := Z ! i]" "D1 = Distance1_of Positions (Z[g := Z ! i]) i"
    by simp_all
  with assms(1,4,5) True show ?thesis
    by (simp add: np_sqrt_def Let_def del: power2_eq_square)
next
  case False
  with assms have "Z1 = Z" "D1 = D"
    by simp_all
  with assms(1,4,5) False show ?thesis
    by (simp add: np_sqrt_def Let_def)
qed

lemma int_cast_stack:
  assumes "1 \<le> z" and "0 \<le> r"
  shows "int_cast (real_of_int z + sqrt r) = z + \<lfloor>sqrt r\<rfloor>"
    and "1 \<le> int_cast (real_of_int z + sqrt r)"
proof -
  have s: "0 \<le> sqrt r" using assms(2) by simp
  then have "0 \<le> real_of_int z + sqrt r" using assms(1) by linarith
  then show eq: "int_cast (real_of_int z + sqrt r) = z + \<lfloor>sqrt r\<rfloor>"
    by (simp add: int_cast_def)
  have "0 \<le> \<lfloor>sqrt r\<rfloor>" using s by simp
  with eq assms(1) show "1 \<le> int_cast (real_of_int z + sqrt r)" by linarith
qed

lemma stack_neighbours_radicands:
  assumes "length Z = length Positions" and "i < length Positions" and "distinct gs"
    and "\<forall>g\<in>set gs. g < length Positions \<and> planar2 Positions i g < 1225
           \<and> D ! g = Distance1_of Positions Z i ! g"
    and "\<forall>r\<in>set rs. 219 < r" and "\<forall>z\<in>set Z. 1 \<le> z"
  shows "\<exists>Z' D' rs'. stack_neighbours Positions i gs (Z, D, rs) = Some (Z', D', rs')
           \<and> length Z' = length Positions \<and> (\<forall>z\<in>set Z'. 1 \<le> z)
           \<and> (\<forall>r\<in>set rs'. 219 < r)"
  using assms
proof (induction gs arbitrary: Z D rs)
  case Nil
  then show ?case by simp
next
  case (Cons g gs)
  show ?case
  proof (cases "g = i")
    case True
    with Cons.prems Cons.IH [of Z D rs] show ?thesis by simp
  next
    case False
    define Z1 where "Z1 = (if Z ! g \<noteq> Z ! i then Z[g := Z ! i] else Z)"
    define D1 where "D1 = (if Z ! g \<noteq> Z ! i then Distance1_of Positions (Z[g := Z ! i]) i else D)"
    define r where "r = (Psize * 10)\<^sup>2 - (D1 ! g)\<^sup>2"
    define Z2 where "Z2 = Z1[g := int_cast (real_of_int (Z1 ! g) + sqrt r)]"
    have g: "g < length Positions" "planar2 Positions i g < 1225"
      "D ! g = Distance1_of Positions Z i ! g"
      using Cons.prems by simp_all
    have len1: "length Z1 = length Positions"
      using Cons.prems by (simp add: Z1_def)
    have Z1i: "Z1 ! i = Z ! i"
      using False by (simp add: Z1_def)
    have Z1g: "Z1 ! g = Z ! i"
      using g Cons.prems(1) by (simp add: Z1_def)
    have D1k: "D1 ! k = Distance1_of Positions Z1 i ! k" if "k \<in> set (g # gs)" for k
    proof (cases "Z ! g \<noteq> Z ! i")
      case True
      then show ?thesis by (simp add: D1_def Z1_def)
    next
      case False
      then show ?thesis using that Cons.prems(4) by (auto simp: D1_def Z1_def)
    qed
    have "D1 ! g = sqrt (planar2 Positions i g)"
      using D1k [of g] g(1) Z1i Z1g by (simp add: Distance1_of_nth)
    then have r_eq: "r = 1444 - planar2 Positions i g"
      by (simp add: r_def Psize_def planar2_nonneg)
    then have r_gt: "219 < r"
      using g(2) by simp
    have step: "stack_neighbours Positions i (g # gs) (Z, D, rs)
                = stack_neighbours Positions i gs (Z2, D1, rs @ [r])"
      unfolding Z2_def
      by (rule stack_neighbours_step [OF False Z1_def D1_def r_def]) (use r_gt in simp)
    have len2: "length Z2 = length Positions"
      using len1 by (simp add: Z2_def)
    have Z2i: "Z2 ! i = Z ! i"
      using False Z1i by (simp add: Z2_def)
    have "1 \<le> Z ! i"
      using Cons.prems(1,2,6) by simp
    then have "1 \<le> int_cast (real_of_int (Z1 ! g) + sqrt r)"
      using int_cast_stack(2) [of "Z ! i" r] r_gt Z1g by simp
    moreover have "\<forall>z\<in>set Z1. 1 \<le> z"
      using Cons.prems(6) \<open>1 \<le> Z ! i\<close> set_update_subset_insert [of Z g "Z ! i"]
      by (auto simp: Z1_def)
    ultimately have low2: "\<forall>z\<in>set Z2. 1 \<le> z"
      using set_update_subset_insert [of Z1 g "int_cast (real_of_int (Z1 ! g) + sqrt r)"]
      by (auto simp: Z2_def)
    have rest: "\<forall>k\<in>set gs. k < length Positions \<and> planar2 Positions i k < 1225
                 \<and> D1 ! k = Distance1_of Positions Z2 i ! k"
    proof
      fix k assume k: "k \<in> set gs"
      then have kg: "k \<noteq> g" using Cons.prems(3) by auto
      have kl: "k < length Positions" "planar2 Positions i k < 1225"
        using k Cons.prems(4) by simp_all
      have "Z2 ! k = Z1 ! k" using kg by (simp add: Z2_def)
      then have "Distance1_of Positions Z2 i ! k = Distance1_of Positions Z1 i ! k"
        using kl(1) Z2i Z1i by (simp add: Distance1_of_nth)
      with D1k [of k] k kl
      show "k < length Positions \<and> planar2 Positions i k < 1225
            \<and> D1 ! k = Distance1_of Positions Z2 i ! k" by simp
    qed
    have "\<forall>r'\<in>set (rs @ [r]). 219 < r'"
      using Cons.prems(5) r_gt by simp
    with Cons.IH [of Z2 D1 "rs @ [r]"] len2 Cons.prems(2,3) rest step low2
    show ?thesis by simp
  qed
qed

lemma sweep_particles_radicands:
  assumes "length Z = length Positions" and "\<forall>i\<in>set is. i < length Positions"
    and "\<forall>r\<in>set rs. 219 < r" and "\<forall>z\<in>set Z. 1 \<le> z"
  shows "\<exists>Z' rs'. sweep_particles Positions is (Z, rs) = Some (Z', rs')
           \<and> length Z' = length Positions \<and> (\<forall>z\<in>set Z'. 1 \<le> z)
           \<and> (\<forall>r\<in>set rs'. 219 < r)"
  using assms
proof (induction "is" arbitrary: Z rs)
  case Nil
  then show ?case by simp
next
  case (Cons i "is")
  define D where "D = Distance1_of Positions Z i"
  define index where "index = np_where_lt D 35"
  have i: "i < length Positions" using Cons.prems(2) by simp
  have sel: "\<forall>g\<in>set index. g < length Positions \<and> planar2 Positions i g < 1225
               \<and> D ! g = Distance1_of Positions Z i ! g"
  proof
    fix g assume "g \<in> set index"
    then have gl: "g < length Positions" and lt: "D ! g < 35"
      using np_where_lt_props [of D 35] by (simp_all add: index_def D_def length_Distance1_of)
    have "planar2 Positions i g < 1225"
      using lt gl sqrt_less_35 [OF _ planar2_nonneg] by (simp add: D_def Distance1_of_nth)
    with gl show "g < length Positions \<and> planar2 Positions i g < 1225
               \<and> D ! g = Distance1_of Positions Z i ! g" by (simp add: D_def)
  qed
  have "distinct index" using np_where_lt_props [of D 35] by (simp add: index_def)
  from stack_neighbours_radicands [OF Cons.prems(1) i this sel Cons.prems(3,4)]
  obtain Z' D' rs' where st: "stack_neighbours Positions i index (Z, D, rs) = Some (Z', D', rs')"
    and len: "length Z' = length Positions" and low: "\<forall>z\<in>set Z'. 1 \<le> z"
    and pos: "\<forall>r\<in>set rs'. 219 < r"
    by blast
  from Cons.IH [OF len _ pos low] Cons.prems(2)
  obtain Z'' rs'' where "sweep_particles Positions is (Z', rs') = Some (Z'', rs'')"
    "length Z'' = length Positions" "\<forall>z\<in>set Z''. 1 \<le> z" "\<forall>r\<in>set rs''. 219 < r"
    by auto
  with st show ?case
    by (simp add: D_def index_def Let_def)
qed

lemma sweep_ok:
  "resolver_ok Positions res \<Longrightarrow> resolver_ok Positions (Option.bind res (sweep Positions))"
proof -
  assume ok: "resolver_ok Positions res"
  then obtain Z rs where res: "res = Some (Z, rs)" and len: "length Z = length Positions"
    and low: "\<forall>z\<in>set Z. 1 \<le> z" and pos: "\<forall>r\<in>set rs. 219 < r"
    by (auto simp: resolver_ok_def split: option.splits)
  from sweep_particles_radicands [OF len _ pos low, of "[0..<length Positions]"]
  show ?thesis
    by (auto simp: res sweep_def resolver_ok_def)
qed

lemma resolve_ok: "resolver_ok Positions (resolve Positions)"
proof -
  have "resolver_ok Positions (Some (replicate (length Positions) 1, []))"
    by (simp add: resolver_ok_def)
  then have "resolver_ok Positions (Option.bind (Some (replicate (length Positions) 1, [])) (sweep Positions))"
    by (rule sweep_ok)
  then have "resolver_ok Positions (sweep Positions (replicate (length Positions) 1, []))"
    by simp
  then show ?thesis
    unfolding resolve_def by (intro sweep_ok)
qed

lemma sqrt_1444: "sqrt 1444 = 38"
  by (rule real_sqrt_unique) simp_all

lemma floor_sqrt_eq:
  assumes "0 \<le> n" and "(real_of_int n)\<^sup>2 \<le> x" and "x < (real_of_int n + 1)\<^sup>2"
  shows "\<lfloor>sqrt x\<rfloor> = n"
proof -
  have "sqrt ((real_of_int n)\<^sup>2) \<le> sqrt x"
    using assms(2) by (simp only: real_sqrt_le_iff)
  then have lo: "real_of_int n \<le> sqrt x"
    using assms(1) by simp
  have "sqrt x < sqrt ((real_of_int n + 1)\<^sup>2)"
    using assms(3) by (simp only: real_sqrt_less_iff)
  then have hi: "sqrt x < real_of_int n + 1"
    using assms(1) by simp
  from lo hi show ?thesis
    by (simp add: floor_unique)
qed

lemmas resolver_eval = sweep_def Distance1_of_def np_where_lt_def np_sqrt_def int_cast_def
  Psize_def

lemma sweep_pair_first: "sweep [(0, 0), (0, 0)] ([1, 1], []) = Some ([1, 39], [1444])"
  by (simp add: resolver_eval sqrt_1444)

lemma sweep_pair_stable:
  "sweep [(0, 0), (0, 0)] ([1, 39], [1444]) = Some ([1, 39], [1444])"
  by (simp add: resolver_eval sqrt_1444)

text \<open>
  Claim C10. In every sweep of every trial, each argument handed to the square root on
  the stacking line, \<open>(Psize*10)\<^sup>2 - Distance1[g]\<^sup>2\<close>, is strictly positive, so the
  resolver never meets a NaN: it returns heights for all particles.
\<close>

theorem stacking_sqrt_argument_positive:
  "\<exists>Z rs. resolve Positions = Some (Z, rs) \<and> length Z = length Positions
     \<and> (\<forall>r\<in>set rs. 0 < r)"
  using resolve_ok [of Positions]
  by (fastforce simp: resolver_ok_def split: option.splits)

theorem stacking_sqrt_argument_positive_witness:
  "resolve [(0, 0), (0, 0)] = Some ([1, 39], [1444]) \<and> list_all (\<lambda>r. 0 < r) [1444 :: real]"
proof -
  have "resolve [(0, 0), (0, 0)] = Some ([1, 39], [1444])"
    by (simp add: resolve_def sweep_pair_first sweep_pair_stable)
  with stacking_sqrt_argument_positive [of "[(0, 0), (0, 0)]"] show ?thesis
    by simp
qed

subsection \<open>Heights are integers\<close>

text \<open>One stacking adjustment, for a neighbour whose \<^verbatim>\<open>Distance1\<close> entry is current:
  the height stored is the synchronized height plus the integer part of the square
  root.\<close>

lemma stack_neighbours_truncates:
  assumes "g \<noteq> i" and "i < length Positions" and "g < length Positions"
    and "length Z = length Positions"
    and "D ! g = Distance1_of Positions Z i ! g"
    and "planar2 Positions i g \<le> 1444" and "1 \<le> Z ! i"
  shows "stack_neighbours Positions i (g # gs) (Z, D, rs)
         = stack_neighbours Positions i gs
             (Z[g := Z ! i + \<lfloor>sqrt (1444 - planar2 Positions i g)\<rfloor>],
              (if Z ! g \<noteq> Z ! i then Distance1_of Positions (Z[g := Z ! i]) i else D),
              rs @ [1444 - planar2 Positions i g])"
proof -
  define Z1 where "Z1 = (if Z ! g \<noteq> Z ! i then Z[g := Z ! i] else Z)"
  define D1 where "D1 = (if Z ! g \<noteq> Z ! i then Distance1_of Positions (Z[g := Z ! i]) i else D)"
  define r where "r = (Psize * 10)\<^sup>2 - (D1 ! g)\<^sup>2"
  have Z1i: "Z1 ! i = Z ! i" using assms(1) by (simp add: Z1_def)
  have Z1g: "Z1 ! g = Z ! i" using assms(3,4) by (simp add: Z1_def)
  have "D1 ! g = Distance1_of Positions Z1 i ! g"
    using assms(5) by (simp add: D1_def Z1_def)
  then have "D1 ! g = sqrt (planar2 Positions i g)"
    using assms(3) Z1i Z1g by (simp add: Distance1_of_nth)
  then have r_eq: "r = 1444 - planar2 Positions i g"
    by (simp add: r_def Psize_def planar2_nonneg)
  then have r0: "0 \<le> r" using assms(6) by simp
  have upd: "Z1[g := int_cast (real_of_int (Z1 ! g) + sqrt r)] = Z[g := Z ! i + \<lfloor>sqrt r\<rfloor>]"
    using int_cast_stack(1) [OF assms(7) r0] Z1g by (simp add: Z1_def)
  have "stack_neighbours Positions i (g # gs) (Z, D, rs)
        = stack_neighbours Positions i gs
            (Z1[g := int_cast (real_of_int (Z1 ! g) + sqrt r)], D1, rs @ [r])"
    by (rule stack_neighbours_step [OF assms(1) Z1_def D1_def r_def]) (use r0 in simp)
  then have "stack_neighbours Positions i (g # gs) (Z, D, rs)
        = stack_neighbours Positions i gs (Z[g := Z ! i + \<lfloor>sqrt r\<rfloor>], D1, rs @ [r])"
    by (simp only: upd)
  then show ?thesis
    unfolding r_eq D1_def .
qed

lemma sqrt_less_35_iff: "sqrt x < 35 \<longleftrightarrow> x < 1225"
proof -
  have "sqrt x < sqrt (35\<^sup>2) \<longleftrightarrow> x < 35\<^sup>2"
    by (simp only: real_sqrt_less_iff)
  then show ?thesis by simp
qed

lemma floor_sqrt_544: "\<lfloor>sqrt 544\<rfloor> = 23"
  by (rule floor_sqrt_eq) simp_all

lemma sqrt_544_not_int: "sqrt 544 \<noteq> 23"
proof
  assume "sqrt 544 = 23"
  then have "(sqrt 544)\<^sup>2 = 23\<^sup>2" by simp
  then show False by simp
qed

lemma sweep_far_first: "sweep [(0, 0), (30, 0)] ([1, 1], []) = Some ([1, 24], [544])"
  by (simp add: resolver_eval floor_sqrt_544 sqrt_less_35_iff)

lemma sweep_far_stable: "sweep [(0, 0), (30, 0)] ([1, 24], [544]) = Some ([1, 24], [544])"
  by (simp add: resolver_eval sqrt_less_35_iff)

text \<open>
  Claim C6. The claim has every height a float and the stacking adjustment add the exact
  real square root. In the code the heights are integers: for two particles at planar
  distance 30 the trial ends with the second at height 24, the integer part of
  \<open>1 + sqrt (38\<^sup>2 - 30\<^sup>2)\<close>, and not at that real number.
\<close>

theorem stacked_height_is_truncated:
  "resolve [(0, 0), (30, 0)] = Some ([1, 24], [544])
   \<and> real_of_int 24 \<noteq> real_of_int 1 + sqrt (38\<^sup>2 - 30\<^sup>2)"
proof -
  have "resolve [(0, 0), (30, 0)] = Some ([1, 24], [544])"
    by (simp add: resolve_def sweep_far_first sweep_far_stable)
  moreover have "real_of_int 24 \<noteq> real_of_int 1 + sqrt (38\<^sup>2 - 30\<^sup>2)"
    using sqrt_544_not_int by simp
  ultimately show ?thesis by simp
qed

subsection \<open>The number of sweeps\<close>

lemma slow_cloud_length: "length slow_cloud = 20"
  by (simp add: slow_cloud_def)

lemma floor_sqrt_radicands:
  "\<lfloor>sqrt 260\<rfloor> = 16"
  "\<lfloor>sqrt 279\<rfloor> = 16"
  "\<lfloor>sqrt 288\<rfloor> = 16"
  "\<lfloor>sqrt 290\<rfloor> = 17"
  "\<lfloor>sqrt 314\<rfloor> = 17"
  "\<lfloor>sqrt 319\<rfloor> = 17"
  "\<lfloor>sqrt 346\<rfloor> = 18"
  "\<lfloor>sqrt 354\<rfloor> = 18"
  "\<lfloor>sqrt 395\<rfloor> = 19"
  "\<lfloor>sqrt 423\<rfloor> = 20"
  "\<lfloor>sqrt 447\<rfloor> = 21"
  "\<lfloor>sqrt 458\<rfloor> = 21"
  "\<lfloor>sqrt 479\<rfloor> = 21"
  "\<lfloor>sqrt 519\<rfloor> = 22"
  "\<lfloor>sqrt 544\<rfloor> = 23"
  "\<lfloor>sqrt 554\<rfloor> = 23"
  "\<lfloor>sqrt 594\<rfloor> = 24"
  "\<lfloor>sqrt 612\<rfloor> = 24"
  "\<lfloor>sqrt 706\<rfloor> = 26"
  "\<lfloor>sqrt 719\<rfloor> = 26"
  "\<lfloor>sqrt 732\<rfloor> = 27"
  "\<lfloor>sqrt 770\<rfloor> = 27"
  "\<lfloor>sqrt 803\<rfloor> = 28"
  "\<lfloor>sqrt 819\<rfloor> = 28"
  "\<lfloor>sqrt 858\<rfloor> = 29"
  "\<lfloor>sqrt 859\<rfloor> = 29"
  "\<lfloor>sqrt 875\<rfloor> = 29"
  "\<lfloor>sqrt 944\<rfloor> = 30"
  "\<lfloor>sqrt 976\<rfloor> = 31"
  "\<lfloor>sqrt 999\<rfloor> = 31"
  "\<lfloor>sqrt 1019\<rfloor> = 31"
  "\<lfloor>sqrt 1079\<rfloor> = 32"
  "\<lfloor>sqrt 1084\<rfloor> = 32"
  "\<lfloor>sqrt 1091\<rfloor> = 33"
  "\<lfloor>sqrt 1119\<rfloor> = 33"
  "\<lfloor>sqrt 1139\<rfloor> = 33"
  "\<lfloor>sqrt 1154\<rfloor> = 33"
  "\<lfloor>sqrt 1179\<rfloor> = 34"
  "\<lfloor>sqrt 1194\<rfloor> = 34"
  "\<lfloor>sqrt 1236\<rfloor> = 35"
  "\<lfloor>sqrt 1244\<rfloor> = 35"
  "\<lfloor>sqrt 1259\<rfloor> = 35"
  "\<lfloor>sqrt 1271\<rfloor> = 35"
  "\<lfloor>sqrt 1274\<rfloor> = 35"
  "\<lfloor>sqrt 1287\<rfloor> = 35"
  "\<lfloor>sqrt 1295\<rfloor> = 35"
  "\<lfloor>sqrt 1298\<rfloor> = 36"
  "\<lfloor>sqrt 1299\<rfloor> = 36"
  "\<lfloor>sqrt 1323\<rfloor> = 36"
  "\<lfloor>sqrt 1327\<rfloor> = 36"
  "\<lfloor>sqrt 1328\<rfloor> = 36"
  "\<lfloor>sqrt 1340\<rfloor> = 36"
  "\<lfloor>sqrt 1344\<rfloor> = 36"
  "\<lfloor>sqrt 1346\<rfloor> = 36"
  "\<lfloor>sqrt 1355\<rfloor> = 36"
  "\<lfloor>sqrt 1371\<rfloor> = 37"
  "\<lfloor>sqrt 1376\<rfloor> = 37"
  "\<lfloor>sqrt 1394\<rfloor> = 37"
  "\<lfloor>sqrt 1399\<rfloor> = 37"
  "\<lfloor>sqrt 1407\<rfloor> = 37"
  "\<lfloor>sqrt 1410\<rfloor> = 37"
  "\<lfloor>sqrt 1426\<rfloor> = 37"
  "\<lfloor>sqrt 1427\<rfloor> = 37"
  "\<lfloor>sqrt 1435\<rfloor> = 37"
  "\<lfloor>sqrt 1439\<rfloor> = 37"
  "\<lfloor>sqrt 1440\<rfloor> = 37"
  by (rule floor_sqrt_eq; simp)+

lemma int_cast_numeral_sqrt:
  "0 \<le> r \<Longrightarrow> int_cast (numeral k + sqrt r) = numeral k + \<lfloor>sqrt r\<rfloor>"
  "0 \<le> r \<Longrightarrow> int_cast (1 + sqrt r) = 1 + \<lfloor>sqrt r\<rfloor>"
  using int_cast_stack(1) [of "numeral k" r] int_cast_stack(1) [of 1 r] by simp_all

lemma slow_sweep_1:
  "sweep slow_cloud ([1, 1, 1, 1, 1, 1, 1, 1, 1, 1, 1, 1, 1, 1, 1, 1, 1, 1, 1, 1], rs)
   = Some ([1, 245, 107, 171, 1, 245, 89, 138, 48, 195, 100, 84, 136, 195, 1, 72, 212, 121, 29, 158], rs @ [944, 554, 279, 859, 706, 1394, 1439, 1271, 1328, 288, 1295, 594, 803, 1439, 1259, 290, 1194, 1019, 1327, 1236, 1179, 1323, 479, 1340, 544, 519, 447, 346, 732, 999, 423, 458, 1287, 1440, 1371, 976, 1427, 1139, 1298, 1179, 354, 1244, 803, 770, 719, 819, 1376, 1299, 1407, 875, 1079, 1355, 1439, 260, 1019, 1371, 1344, 1091, 1236, 1084, 1346, 1327, 1298, 612, 803, 1274, 319, 1119, 1154, 314, 1426, 1435, 395, 1399, 1410])"
  by (simp add: sweep_def slow_cloud_def Distance1_of_def np_where_lt_def np_sqrt_def Psize_def
      sqrt_less_35_iff floor_sqrt_radicands int_cast_numeral_sqrt)

lemma slow_sweep_2:
  "sweep slow_cloud ([1, 245, 107, 171, 1, 245, 89, 138, 48, 195, 100, 84, 136, 195, 1, 72, 212, 121, 29, 158], rs)
   = Some ([1, 268, 129, 241, 1, 282, 101, 161, 48, 218, 124, 107, 160, 232, 1, 84, 212, 144, 29, 181], rs @ [1439, 1340, 314, 354, 319, 1299, 1407, 260, 519, 1371, 1236, 260, 1327, 319, 858, 314, 1435, 1399])"
  by (simp add: sweep_def slow_cloud_def Distance1_of_def np_where_lt_def np_sqrt_def Psize_def
      sqrt_less_35_iff floor_sqrt_radicands int_cast_numeral_sqrt)

lemma slow_sweep_3:
  "sweep slow_cloud ([1, 268, 129, 241, 1, 282, 101, 161, 48, 218, 124, 107, 160, 232, 1, 84, 212, 144, 29, 181], rs)
   = Some ([1, 298, 141, 264, 1, 305, 101, 179, 48, 235, 146, 119, 182, 262, 1, 84, 235, 162, 29, 198], rs @ [1439, 1340, 314, 458, 354, 319, 319, 260, 519, 260, 1327, 858, 314, 1399])"
  by (simp add: sweep_def slow_cloud_def Distance1_of_def np_where_lt_def np_sqrt_def Psize_def
      sqrt_less_35_iff floor_sqrt_radicands int_cast_numeral_sqrt)

lemma slow_sweep_4:
  "sweep slow_cloud ([1, 298, 141, 264, 1, 305, 101, 179, 48, 235, 146, 119, 182, 262, 1, 84, 235, 162, 29, 198], rs)
   = Some ([1, 321, 141, 281, 1, 335, 101, 191, 48, 249, 158, 119, 196, 285, 1, 84, 252, 174, 29, 212], rs @ [1439, 314, 458, 319, 319, 260, 260, 1327, 858, 314, 1399])"
  by (simp add: sweep_def slow_cloud_def Distance1_of_def np_where_lt_def np_sqrt_def Psize_def
      sqrt_less_35_iff floor_sqrt_radicands int_cast_numeral_sqrt)

lemma slow_sweep_5:
  "sweep slow_cloud ([1, 321, 141, 281, 1, 335, 101, 191, 48, 249, 158, 119, 196, 285, 1, 84, 252, 174, 29, 212], rs)
   = Some ([1, 338, 141, 295, 1, 358, 101, 191, 48, 261, 158, 119, 208, 302, 1, 84, 266, 174, 29, 224], rs @ [1439, 458, 319, 319, 260, 1327, 858, 1399])"
  by (simp add: sweep_def slow_cloud_def Distance1_of_def np_where_lt_def np_sqrt_def Psize_def
      sqrt_less_35_iff floor_sqrt_radicands int_cast_numeral_sqrt)

lemma slow_sweep_6:
  "sweep slow_cloud ([1, 338, 141, 295, 1, 358, 101, 191, 48, 261, 158, 119, 208, 302, 1, 84, 266, 174, 29, 224], rs)
   = Some ([1, 352, 141, 307, 1, 375, 101, 191, 48, 261, 158, 119, 208, 316, 1, 84, 278, 174, 29, 224], rs @ [1439, 458, 319, 1327, 858])"
  by (simp add: sweep_def slow_cloud_def Distance1_of_def np_where_lt_def np_sqrt_def Psize_def
      sqrt_less_35_iff floor_sqrt_radicands int_cast_numeral_sqrt)

lemma slow_sweep_7:
  "sweep slow_cloud ([1, 352, 141, 307, 1, 375, 101, 191, 48, 261, 158, 119, 208, 316, 1, 84, 278, 174, 29, 224], rs)
   = Some ([1, 364, 141, 307, 1, 389, 101, 191, 48, 261, 158, 119, 208, 328, 1, 84, 278, 174, 29, 224], rs @ [1439, 458, 1327])"
  by (simp add: sweep_def slow_cloud_def Distance1_of_def np_where_lt_def np_sqrt_def Psize_def
      sqrt_less_35_iff floor_sqrt_radicands int_cast_numeral_sqrt)

lemma slow_sweep_8:
  "sweep slow_cloud ([1, 364, 141, 307, 1, 389, 101, 191, 48, 261, 158, 119, 208, 328, 1, 84, 278, 174, 29, 224], rs)
   = Some ([1, 364, 141, 307, 1, 401, 101, 191, 48, 261, 158, 119, 208, 328, 1, 84, 278, 174, 29, 224], rs @ [1439])"
  by (simp add: sweep_def slow_cloud_def Distance1_of_def np_where_lt_def np_sqrt_def Psize_def
      sqrt_less_35_iff floor_sqrt_radicands int_cast_numeral_sqrt)

lemma slow_start: "replicate (length slow_cloud) 1 = [1, 1, 1, 1, 1, 1, 1, 1, 1, 1, 1, 1, 1, 1, 1, 1, 1, 1, 1, 1]"
  by (simp add: slow_cloud_length eval_nat_numeral)

lemma slow_seven:
  "map_option fst (resolve_seven_sweeps slow_cloud)
     = Some [1, 364, 141, 307, 1, 389, 101, 191, 48, 261, 158, 119, 208, 328, 1, 84, 278, 174, 29, 224]"
  by (simp add: resolve_seven_sweeps_def slow_start slow_sweep_1 slow_sweep_2 slow_sweep_3
      slow_sweep_4 slow_sweep_5 slow_sweep_6 slow_sweep_7)

lemma slow_eight:
  "map_option fst (resolve slow_cloud)
     = Some [1, 364, 141, 307, 1, 401, 101, 191, 48, 261, 158, 119, 208, 328, 1, 84, 278, 174, 29, 224]"
  by (simp add: resolve_def slow_start slow_sweep_1 slow_sweep_2 slow_sweep_3 slow_sweep_4
      slow_sweep_5 slow_sweep_6 slow_sweep_7 slow_sweep_8)

text \<open>
  Claim C4, as amended. In every trial the resolver performs exactly eight identical
  relaxation sweeps over all particles, each on the heights the previous one left,
  starting from heights 1, before the area-loss accounting begins.
\<close>

theorem trial_runs_eight_sweeps:
  "resolve Positions
     = ((\<lambda>st. Option.bind st (sweep Positions)) ^^ 8) (Some (replicate (length Positions) 1, []))
   \<and> trial Positions
     = map_option (\<lambda>(Z, rs). Ratio Positions Z)
         (((\<lambda>st. Option.bind st (sweep Positions)) ^^ 8)
            (Some (replicate (length Positions) 1, [])))"
  by (simp add: trial_def resolve_def eval_nat_numeral)

text \<open>The claim as stated (seven sweeps) fails: on \<open>slow_cloud\<close> seven sweeps leave
  particle 5 at height 389, and the code, with its eighth sweep, leaves it at 401.\<close>

theorem eighth_sweep_changes_heights:
  "map_option fst (resolve_seven_sweeps slow_cloud)
     = Some [1, 364, 141, 307, 1, 389, 101, 191, 48, 261, 158, 119, 208, 328, 1, 84, 278, 174, 29, 224]
   \<and> map_option fst (resolve slow_cloud)
     = Some [1, 364, 141, 307, 1, 401, 101, 191, 48, 261, 158, 119, 208, 328, 1, 84, 278, 174, 29, 224]
   \<and> resolve slow_cloud \<noteq> resolve_seven_sweeps slow_cloud"
proof -
  have "map_option fst (resolve slow_cloud) \<noteq> map_option fst (resolve_seven_sweeps slow_cloud)"
    unfolding slow_seven slow_eight by simp
  then have "resolve slow_cloud \<noteq> resolve_seven_sweeps slow_cloud"
    by auto
  then show ?thesis
    using slow_seven slow_eight by simp
qed

section \<open>Facts about the charge integration\<close>

subsection \<open>Coverage conversion\<close>

text \<open>
  Claim C3. For the nanoparticle model with positive particle and aperture areas and any
  \<open>x\<close> in (0, 1000], converting the coverage \<open>x\<close> to a particle number and back gives
  \<open>x\<close> again, exactly over the reals.
\<close>

theorem coverage_round_trip:
  assumes "model self = Some NP"
    and "area_particle self = Some ap" and "0 < ap"
    and "area_aperture self = Some aa" and "0 < aa"
    and "0 < x" and "x \<le> 1000"
  shows "\<exists>n. convert_coverage_to_number self x = ([], Inr (Some n))
           \<and> convert_number_to_coverage self n = ([], Inr (Some x))"
  using assms
  by (simp add: convert_coverage_to_number_def convert_number_to_coverage_def)

theorem coverage_round_trip_witness:
  "model (blank\<lparr>model := Some NP, area_particle := Some 1, area_aperture := Some 4\<rparr>) = Some NP
   \<and> (0::real) < 1 \<and> (0::real) < 4 \<and> (0::real) < 50 \<and> (50::real) \<le> 1000
   \<and> convert_coverage_to_number
         (blank\<lparr>model := Some NP, area_particle := Some 1, area_aperture := Some 4\<rparr>) 50
       = ([], Inr (Some 2))
   \<and> convert_number_to_coverage
         (blank\<lparr>model := Some NP, area_particle := Some 1, area_aperture := Some 4\<rparr>) 2
       = ([], Inr (Some 50))"
  using coverage_round_trip
    [of "blank\<lparr>model := Some NP, area_particle := Some 1, area_aperture := Some 4\<rparr>" 1 4 50]
  by (simp add: blank_def convert_coverage_to_number_def convert_number_to_coverage_def)

subsection \<open>The integral of a constant current\<close>

lemma np_diff_map_upt:
  "np_diff (map f [0..<n]) = map (\<lambda>k. f (Suc k) - f k) [0..<n - 1]"
proof (rule nth_equalityI)
  show "length (np_diff (map f [0..<n])) = length (map (\<lambda>k. f (Suc k) - f k) [0..<n - 1])"
    by (simp add: np_diff_def)
next
  fix k assume "k < length (np_diff (map f [0..<n]))"
  then have k: "k < n - 1" by (simp add: np_diff_def)
  then show "np_diff (map f [0..<n]) ! k = map (\<lambda>k. f (Suc k) - f k) [0..<n - 1] ! k"
    by (simp add: np_diff_def nth_tl)
qed

lemma integral_constant:
  "integral 0 (map (\<lambda>k. (t0 + real k * dt, c)) [0..<n]) = \<bar>c\<bar> * dt * real (n - 1) / e_charge"
proof -
  let ?dat = "map (\<lambda>k. (t0 + real k * dt, c)) [0..<n]"
  have net: "tl (net_current 0 ?dat) = replicate (n - 1) \<bar>c\<bar>"
    by (simp add: net_current_def comp_def map_replicate_const tl_replicate flip: map_tl)
  have "np_diff (map fst ?dat) = map (\<lambda>k. (t0 + real (Suc k) * dt) - (t0 + real k * dt)) [0..<n - 1]"
    using np_diff_map_upt [of "\<lambda>k. t0 + real k * dt" n] by (simp add: comp_def)
  also have "\<dots> = replicate (n - 1) dt"
    by (simp add: algebra_simps map_replicate_const)
  finally have diff: "np_diff (map fst ?dat) = replicate (n - 1) dt" .
  have "integral 0 ?dat
        = sum_list (map (\<lambda>(n, d). n * d) (zip (replicate (n - 1) \<bar>c\<bar>) (replicate (n - 1) dt)))
            / e_charge"
    unfolding integral_def net diff ..
  then show ?thesis
    by (simp add: zip_replicate sum_list_replicate)
qed

lemma double_range_above_4: "(4::real) < 2 ^ 1024 - 2 ^ 970"
proof -
  have "(2::real) ^ 1024 = 2 ^ 970 * 2 ^ 54"
    by (simp flip: power_add)
  moreover have "(1::real) \<le> 2 ^ 970"
    by simp
  moreover have "(4::real) < 2 ^ 54 - 1"
    by simp
  ultimately have "(4::real) < 2 ^ 970 * (2 ^ 54 - 1)"
    by (smt (verit) mult_le_cancel_right1 mult.commute)
  then show ?thesis
    using \<open>(2::real) ^ 1024 = 2 ^ 970 * 2 ^ 54\<close> by (simp add: algebra_simps)
qed

lemma rounds_to_inf_small:
  "\<bar>r\<bar> \<le> 1 \<Longrightarrow> rounds_to_inf (r\<^sup>2) = False"
  "\<bar>r\<bar> \<le> 1 \<Longrightarrow> rounds_to_inf (pi * r\<^sup>2) = False"
proof -
  assume r: "\<bar>r\<bar> \<le> 1"
  then have x: "r\<^sup>2 \<le> 1"
    by (simp add: abs_le_square_iff [of r 1, simplified])
  then show "rounds_to_inf (r\<^sup>2) = False"
    using double_range_above_4 by (simp add: rounds_to_inf_def)
  have "\<bar>pi * r\<^sup>2\<bar> = pi * r\<^sup>2"
    by simp
  also have "\<dots> \<le> 4 * 1"
    using x pi_less_4 by (intro mult_mono) simp_all
  finally show "rounds_to_inf (pi * r\<^sup>2) = False"
    using double_range_above_4 by (simp add: rounds_to_inf_def)
qed

lemmas init_eval = init_def set_param_def strip_chars_def decimal_float_def is_digit_def
  digits_value_def blank_def default_targets_def read_finite_def disc_area_def
  rounds_to_inf_small Let_def

lemma example_fields:
  "model (example_session w dat) = Some NP" "target (example_session w dat) = Some [10]"
  "time (example_session w dat) = w" "leak_current (example_session w dat) = Some 0"
  "area_particle (example_session w dat) = Some (pi * (1 / 2 * (1 / 10 ^ 9))\<^sup>2)"
  "area_aperture (example_session w dat) = Some (pi * (1 / 2 * (1 / 10 ^ 3))\<^sup>2)"
  "data (example_session w dat) = dat"
  "(example_session w dat)\<lparr>data := dat'\<rparr> = example_session w dat'"
  by (simp_all add: example_session_def)

lemma init_example:
  "init decimal_float
     ''TARGET=10;MODEL=NP;LEAK_CURRENT=0;PARTICLE_DIAMETER=1;APERTURE_DIAMETER=1'' dat
   = Inr (example_session [] dat, [])"
  by (simp add: init_eval example_session_def)

lemma init_example_window:
  "init decimal_float
     ''TARGET=10;MODEL=NP;LEAK_CURRENT=0;PARTICLE_DIAMETER=1;APERTURE_DIAMETER=1;TIME=[1,2]'' dat
   = Inr (example_session [1, 2] dat, [])"
  by (simp add: init_eval example_session_def)

text \<open>
  Claim C2. For a constant current \<open>c\<close> sampled at \<open>N \<ge> 2\<close> times spaced by \<open>dt\<close>, with
  zero leak current and no time window, \<^verbatim>\<open>integrate\<close> computes (and prints first) the
  particle count \<open>|c| * dt * (N - 1) / e\<close> with \<open>e = 1.602e-19\<close>.
\<close>

theorem constant_current_integral:
  assumes "leak_current self = Some 0" and "time self = []"
    and "data self = map (\<lambda>k. (t0 + real k * dt, c)) [0..<N]" and "2 \<le> N"
  shows "\<exists>out err. integrate self
           = (self, Number (\<bar>c\<bar> * dt * real (N - 1) / e_charge) # out, err)"
  using assms integral_constant [of t0 dt c N]
  by (simp add: integrate_def apply_time_window_def Let_def split: prod.splits)

theorem constant_current_integral_witness:
  "leak_current (example_session [] [(0, 2), (1, 2), (2, 2)]) = Some 0
   \<and> time (example_session [] [(0, 2), (1, 2), (2, 2)]) = []
   \<and> data (example_session [] [(0, 2), (1, 2), (2, 2)])
       = map (\<lambda>k. (0 + real k * 1, 2)) [0..<3]
   \<and> (2::nat) \<le> 3
   \<and> (\<exists>out err. integrate (example_session [] [(0, 2), (1, 2), (2, 2)])
         = (example_session [] [(0, 2), (1, 2), (2, 2)],
            Number (\<bar>2\<bar> * 1 * real (3 - 1) / e_charge) # out, err))"
proof -
  have d: "data (example_session [] [(0, 2), (1, 2), (2, 2)])
       = map (\<lambda>k. (0 + real k * 1, 2)) [0..<3]"
    by (simp add: example_fields numeral_3_eq_3)
  from constant_current_integral [OF example_fields(4) example_fields(3) d]
  show ?thesis using d by (simp add: example_fields numeral_3_eq_3)
qed

subsection \<open>The time window\<close>

lemma apply_time_window_fields:
  assumes "apply_time_window self = (self1, e)"
  shows "model self1 = model self" "target self1 = target self"
    "area_particle self1 = area_particle self" "area_aperture self1 = area_aperture self"
    "leak_current self1 = leak_current self" "time self1 = time self"
  using assms by (auto simp: apply_time_window_def Let_def split: if_splits)

lemma apply_time_window_data:
  "data (fst (apply_time_window self)) =
     (if time self = [] then data self
      else if length (time self) < 2 then filter (\<lambda>(t, c). time self ! 0 \<le> t) (data self)
      else filter (\<lambda>(t, c). time self ! 0 \<le> t \<and> t \<le> time self ! 1) (data self))"
  by (auto simp: apply_time_window_def Let_def split_def intro: filter_cong)

lemma integrate_self:
  "fst (integrate self) = (if leak_current self = None then self else fst (apply_time_window self))"
  by (auto simp: integrate_def Let_def split: option.splits prod.splits)

lemma pick_target_find:
  "pick_target tgt present xs acc
   = (case find (\<lambda>c. present \<le> c) xs of
        Some c \<Rightarrow> Some c
      | None \<Rightarrow> (if xs = [] then acc else Some (last tgt)))"
  by (induction xs arbitrary: acc) simp_all

lemma select_target_chosen:
  "tgt \<noteq> [] \<Longrightarrow> select_target tgt (Some present) = Inr (chosen_target tgt present)"
  by (cases tgt) (simp_all add: select_target_def pick_target_find chosen_target_def
      split: option.splits)

lemma predict_NP:
  assumes "model self = Some NP"
    and "area_particle self = Some ap" and "ap \<noteq> 0"
    and "area_aperture self = Some aa" and "aa \<noteq> 0"
    and "target self = Some tgt" and "tgt \<noteq> []"
    and "present = integ * 100 / aa * ap"
    and "tc = chosen_target tgt present"
    and "n = tc / 100 * aa / ap"
  shows "predict self integ rate =
     (if n < integ
      then ([AlreadyExceeded tc present, NumberOfClusters (to_pmol integ)], None)
      else (case time_estimate n integ rate of
              Inl err \<Rightarrow> ([], Some err)
            | Inr (h, m, s) \<Rightarrow> ([TimeUntil (to_pmol integ) present tc h m s], None)))"
proof -
  have c1: "convert_number_to_coverage self integ = ([], Inr (Some present))"
    using assms by (simp add: convert_number_to_coverage_def)
  have c2: "select_target tgt (Some present) = Inr tc"
    using assms by (simp add: select_target_chosen)
  have c3: "convert_coverage_to_number self tc = ([], Inr (Some n))"
    using assms by (simp add: convert_coverage_to_number_def)
  show ?thesis
    by (simp add: predict_def c1 c2 c3 assms(6) split: sum.splits prod.splits)
qed

lemma example_to_number:
  "convert_coverage_to_number (example_session w dat) c = ([], Inr (Some (c * 10000000000)))"
  by (simp add: example_session_def convert_coverage_to_number_def power2_eq_square)

lemma example_to_coverage:
  "convert_number_to_coverage (example_session w dat) n = ([], Inr (Some (n / 10000000000)))"
  by (simp add: example_session_def convert_number_to_coverage_def power2_eq_square)

lemma select_single: "select_target [c] (Some p) = Inr c"
  by (simp add: select_target_def)

lemma example_predict_exceeded:
  "100000000000 < integ \<Longrightarrow>
   predict (example_session w dat) integ rate
   = ([AlreadyExceeded 10 (integ / 10000000000), NumberOfClusters (to_pmol integ)], None)"
  by (simp add: predict_def example_to_number example_to_coverage example_fields select_single)

lemma example_predict_equal:
  "predict (example_session w dat) 100000000000 (Some 100000000000)
   = ([TimeUntil (to_pmol 100000000000) 10 10 0 0 0], None)"
  by (simp add: predict_def example_to_number example_to_coverage example_fields select_single
      time_estimate_def int_cast_def)

lemma integral_unit_pair: "integral 0 [(1, 1), (2, 1)] = 5000000000000000000000 / 801"
  by (simp add: integral_def net_current_def np_diff_def e_charge_def)

lemma integral_unit_pair0: "integral 0 [(0, 1), (1, 1)] = 5000000000000000000000 / 801"
  by (simp add: integral_def net_current_def np_diff_def e_charge_def)

lemma integral_goal_pair:
  "integral 0 [(0, 801 / 50000000000), (1, 801 / 50000000000)] = 100000000000"
  by (simp add: integral_def net_current_def np_diff_def e_charge_def)

lemma rate_goal_pair:
  "deposition_rate 0 [(0, 801 / 50000000000), (1, 801 / 50000000000)] = Some 100000000000"
  by (simp add: deposition_rate_def net_current_def e_charge_def)

lemma window_example:
  "apply_time_window (example_session [1, 2] [(0, 1), (1, 1), (2, 1), (3, 1)])
   = (example_session [1, 2] [(1, 1), (2, 1)], None)"
  by (simp add: apply_time_window_def example_fields Let_def)

lemma window_none: "apply_time_window (example_session [] dat) = (example_session [] dat, None)"
  by (simp add: apply_time_window_def example_fields)

lemma integrate_window_example:
  "integrate (example_session [1, 2] [(0, 1), (1, 1), (2, 1), (3, 1)])
   = (example_session [1, 2] [(1, 1), (2, 1)],
      [Number (5000000000000000000000 / 801),
       AlreadyExceeded 10 (5000000000000000000000 / 801 / 10000000000),
       NumberOfClusters (to_pmol (5000000000000000000000 / 801))], None)"
  by (simp add: integrate_def window_example example_fields integral_unit_pair
      example_predict_exceeded Let_def)

text \<open>
  Claim C8, as amended. When no time window is configured, the stored measurement data
  after \<^verbatim>\<open>integrate\<close> is exactly the loaded data; when a window \<open>[t0, t1]\<close> is configured
  (and the leak current is set), \<^verbatim>\<open>integrate\<close> replaces the stored data by the samples
  with \<open>t0 \<le> time \<le> t1\<close>, in their order.
\<close>

theorem integrate_stored_data:
  "(time self = [] \<longrightarrow> data (fst (integrate self)) = data self)
   \<and> (leak_current self = Some leak \<and> time self = [t0, t1]
        \<longrightarrow> data (fst (integrate self)) = filter (\<lambda>(t, c). t0 \<le> t \<and> t \<le> t1) (data self))"
  by (auto simp: integrate_self apply_time_window_data)

theorem integrate_stored_data_witness:
  "time (example_session [] [(0, 1), (1, 1), (2, 1), (3, 1)]) = []
   \<and> data (fst (integrate (example_session [] [(0, 1), (1, 1), (2, 1), (3, 1)])))
       = [(0, 1), (1, 1), (2, 1), (3, 1)]
   \<and> leak_current (example_session [1, 2] [(0, 1), (1, 1), (2, 1), (3, 1)]) = Some 0
   \<and> time (example_session [1, 2] [(0, 1), (1, 1), (2, 1), (3, 1)]) = [1, 2]
   \<and> data (fst (integrate (example_session [1, 2] [(0, 1), (1, 1), (2, 1), (3, 1)])))
       = [(1, 1), (2, 1)]"
  using integrate_stored_data [of "example_session [] [(0, 1), (1, 1), (2, 1), (3, 1)]"]
    integrate_stored_data [of "example_session [1, 2] [(0, 1), (1, 1), (2, 1), (3, 1)]" 0 1 2]
  by (simp add: example_fields)

text \<open>The claim as stated (data unchanged also with a window) fails: with the window
  \<open>[1, 2]\<close> and samples at times 0, 1, 2, 3, \<^verbatim>\<open>integrate\<close> returns normally and the
  stored data has lost the samples at times 0 and 3.\<close>

theorem integrate_window_replaces_data:
  "init decimal_float
     ''TARGET=10;MODEL=NP;LEAK_CURRENT=0;PARTICLE_DIAMETER=1;APERTURE_DIAMETER=1;TIME=[1,2]''
     [(0, 1), (1, 1), (2, 1), (3, 1)]
   = Inr (example_session [1, 2] [(0, 1), (1, 1), (2, 1), (3, 1)], [])
   \<and> snd (snd (integrate (example_session [1, 2] [(0, 1), (1, 1), (2, 1), (3, 1)]))) = None
   \<and> data (example_session [1, 2] [(0, 1), (1, 1), (2, 1), (3, 1)])
       = [(0, 1), (1, 1), (2, 1), (3, 1)]
   \<and> data (fst (integrate (example_session [1, 2] [(0, 1), (1, 1), (2, 1), (3, 1)])))
       = [(1, 1), (2, 1)]"
  by (simp add: init_example_window integrate_window_example example_fields)

subsection \<open>The time estimate\<close>

text \<open>
  Claim C5, as amended. For every measurement and NP configuration (the particle and
  aperture areas positive, a target list and a leak current configured, and the time
  window, if one is configured, with both its ends): whenever the integrated particle
  count strictly exceeds the particle-count goal of the selected target coverage
  (\<open>target_number < integral\<close>), the predictor reports "already exceeded" and stops; in
  particular it then prints no time estimate, so the remaining-time division is not
  performed and no negative remaining-time value is produced.
\<close>

theorem already_exceeded_when_strictly_above:
  assumes "model self = Some NP"
    and "area_particle self = Some ap" and "0 < ap"
    and "area_aperture self = Some aa" and "0 < aa"
    and "target self = Some tgt" and "tgt \<noteq> []"
    and "leak_current self = Some leak"
    and "apply_time_window self = (self1, None)"
  shows "\<exists>integ present target_coverage target_number.
      integ = integral leak (data self1)
    \<and> convert_number_to_coverage self1 integ = ([], Inr (Some present))
    \<and> select_target tgt (Some present) = Inr target_coverage
    \<and> convert_coverage_to_number self1 target_coverage = ([], Inr (Some target_number))
    \<and> (target_number < integ \<longrightarrow>
         integrate self = (self1, [Number integ, AlreadyExceeded target_coverage present,
                                   NumberOfClusters (to_pmol integ)], None))"
proof -
  define integ where "integ = integral leak (data self1)"
  define rate where "rate = deposition_rate leak (data self1)"
  define present where "present = integ * 100 / aa * ap"
  define tc where "tc = chosen_target tgt present"
  define n where "n = tc / 100 * aa / ap"
  note f = apply_time_window_fields [OF assms(9)]
  have np: "model self1 = Some NP" "area_particle self1 = Some ap"
    "area_aperture self1 = Some aa" "target self1 = Some tgt"
    using f assms by simp_all
  have c1: "convert_number_to_coverage self1 integ = ([], Inr (Some present))"
    using np assms(3,5) by (simp add: convert_number_to_coverage_def present_def)
  have c2: "select_target tgt (Some present) = Inr tc"
    using assms(7) by (simp add: select_target_chosen tc_def)
  have c3: "convert_coverage_to_number self1 tc = ([], Inr (Some n))"
    using np assms(3,5) by (simp add: convert_coverage_to_number_def n_def)
  have pr: "predict self1 integ rate =
      (if n < integ
       then ([AlreadyExceeded tc present, NumberOfClusters (to_pmol integ)], None)
       else (case time_estimate n integ rate of
               Inl err \<Rightarrow> ([], Some err)
             | Inr (h, m, s) \<Rightarrow> ([TimeUntil (to_pmol integ) present tc h m s], None)))"
    by (rule predict_NP [OF np(1) np(2) _ np(3) _ np(4) assms(7) present_def tc_def n_def])
      (use assms(3,5) in simp_all)
  have int: "integrate self = (self1, Number integ # fst (predict self1 integ rate),
                              snd (predict self1 integ rate))"
    using assms(8,9) by (simp add: integrate_def Let_def integ_def rate_def split: prod.splits)
  have exceeded: "integrate self = (self1, [Number integ, AlreadyExceeded tc present,
                                   NumberOfClusters (to_pmol integ)], None)" if "n < integ"
    using that by (simp add: int pr)
  show ?thesis
    using c1 c2 c3 exceeded unfolding integ_def [symmetric]
    by (intro exI [of _ integ] exI [of _ present] exI [of _ tc] exI [of _ n]) (simp add: integ_def)
qed

theorem already_exceeded_when_strictly_above_witness:
  "model (example_session [] [(0, 1), (1, 1)]) = Some NP
   \<and> target (example_session [] [(0, 1), (1, 1)]) = Some [10]
   \<and> leak_current (example_session [] [(0, 1), (1, 1)]) = Some 0
   \<and> apply_time_window (example_session [] [(0, 1), (1, 1)])
       = (example_session [] [(0, 1), (1, 1)], None)
   \<and> convert_coverage_to_number (example_session [] [(0, 1), (1, 1)]) 10
       = ([], Inr (Some (10 ^ 11)))
   \<and> (10 ^ 11 :: real) < integral 0 [(0, 1), (1, 1)]
   \<and> integrate (example_session [] [(0, 1), (1, 1)])
       = (example_session [] [(0, 1), (1, 1)],
          [Number (10 ^ 22 / 1602), AlreadyExceeded 10 (10 ^ 12 / 1602),
           NumberOfClusters (to_pmol (10 ^ 22 / 1602))], None)"
proof -
  let ?S = "example_session [] [(0, 1), (1, 1)]"
  have ap: "(0::real) < pi * (1 / 2 * (1 / 10 ^ 9))\<^sup>2" and aa: "(0::real) < pi * (1 / 2 * (1 / 10 ^ 3))\<^sup>2"
    by simp_all
  have ne: "[10::real] \<noteq> []" by simp
  from already_exceeded_when_strictly_above [OF example_fields(1) example_fields(5) ap example_fields(6) aa
      example_fields(2) ne example_fields(4) window_none, of "[(0, 1), (1, 1)]"]
  obtain integ present tc n where
    i: "integ = integral 0 (data ?S)"
    and p: "convert_number_to_coverage ?S integ = ([], Inr (Some present))"
    and t: "select_target [10] (Some present) = Inr tc"
    and c: "convert_coverage_to_number ?S tc = ([], Inr (Some n))"
    and ex: "n < integ \<longrightarrow> integrate ?S = (?S, [Number integ, AlreadyExceeded tc present,
                                   NumberOfClusters (to_pmol integ)], None)"
    by blast
  have i': "integ = 5000000000000000000000 / 801"
    using i by (simp add: example_fields integral_unit_pair0)
  have p': "present = integ / 10000000000" using p by (simp add: example_to_coverage)
  have t': "tc = 10" using t by (simp add: select_single)
  have c': "n = 100000000000" using c by (simp add: example_to_number t')
  have "n < integ" by (simp add: c' i')
  with ex have "integrate ?S = (?S, [Number integ, AlreadyExceeded tc present,
                                   NumberOfClusters (to_pmol integ)], None)" by simp
  then show ?thesis
    by (simp add: i' p' t' example_fields window_none example_to_number integral_unit_pair0)
qed

text \<open>The claim as stated (\<open>target_number \<le> integral\<close>) fails at equality: with
  target 10 percent and a count of exactly \<open>10^11\<close>, the goal, \<^verbatim>\<open>integrate\<close> divides the
  remaining count 0 by the deposition rate and prints the time estimate, not "already
  exceeded". (The doubles of the code give the same count, goal and estimate here.)\<close>

theorem time_estimate_at_equal_count:
  "init decimal_float
     ''TARGET=10;MODEL=NP;LEAK_CURRENT=0;PARTICLE_DIAMETER=1;APERTURE_DIAMETER=1''
     [(0, 1602 / 10 ^ 11), (1, 1602 / 10 ^ 11)]
   = Inr (example_session [] [(0, 1602 / 10 ^ 11), (1, 1602 / 10 ^ 11)], [])
   \<and> integral 0 [(0, 1602 / 10 ^ 11), (1, 1602 / 10 ^ 11)] = 10 ^ 11
   \<and> convert_coverage_to_number
         (example_session [] [(0, 1602 / 10 ^ 11), (1, 1602 / 10 ^ 11)]) 10
       = ([], Inr (Some (10 ^ 11)))
   \<and> integrate (example_session [] [(0, 1602 / 10 ^ 11), (1, 1602 / 10 ^ 11)])
       = (example_session [] [(0, 1602 / 10 ^ 11), (1, 1602 / 10 ^ 11)],
          [Number (10 ^ 11), TimeUntil (to_pmol (10 ^ 11)) 10 10 0 0 0], None)"
  using init_example [of "[(0, 1602 / 10 ^ 11), (1, 1602 / 10 ^ 11)]"]
  by (simp add: integrate_def window_none example_fields integral_goal_pair rate_goal_pair
      example_predict_equal example_to_number)

subsection \<open>Construction from the parameter string\<close>





text \<open>A diameter that \<^verbatim>\<open>float\<close> reads but whose squared radius leaves the range of the
  doubles, such as \<^verbatim>\<open>APERTURE_DIAMETER=1e160\<close>, stops the construction.\<close>

lemma set_param_overflow:
  assumes "split_on CHR ''='' item = [''APERTURE_DIAMETER'', val]"
    and "pyfloat val = Finite v" and "rounds_to_inf ((v / 2 * (1 / 10 ^ 3))\<^sup>2)"
  shows "set_param pyfloat item (self, out) = Inl OverflowError"
  using assms by (simp add: set_param_def read_finite_def disc_area_def Let_def)






end
